theory Spec2Isabelle
  imports Complex_Main "HOL-Library.AList"
begin

section \<open>The interactive flow: data model\<close>

text \<open>
  The window of \<^verbatim>\<open>gui.py\<close> holds a pandas dataframe, a list of selected row indices
  and a few widgets. The dataframe is a sequence of named columns over a row index of
  \<open>nrows\<close> positions. Cells are exact rationals: the rounding of binary floating point
  and missing cells are outside this model. The result of \<^verbatim>\<open>Series.mean()\<close> is a rational
  or NaN (the mean of no values).
\<close>

datatype error =
    AttributeError
  | IndexError
  | KeyError
  | FileNotFoundError
  | ParserError
  | NotADirectoryError
  | OperationalError
  | DatabaseError
  | InvalidWorksheetName
  | DuplicateWorksheetName
  | IsADirectoryError

datatype pyfloat = Float rat | NaN

record dataframe =
  nrows :: nat
  columns :: "(string \<times> rat list) list"


text \<open>
  \<^verbatim>\<open>df.iloc[idx]\<close> with a list of positions: a new dataframe with the rows at the
  positions, in the order of the list; a position past the last row raises IndexError.
  The positions come from \<^verbatim>\<open>QModelIndex.row()\<close> and are never negative.
\<close>

definition iloc :: "dataframe \<Rightarrow> nat list \<Rightarrow> error + dataframe" where
  "iloc df idx =
     (if list_all (\<lambda>i. i < nrows df) idx
      then Inr \<lparr>nrows = length idx,
                columns = map (\<lambda>(n, c). (n, map (\<lambda>i. c ! i) idx)) (columns df)\<rparr>
      else Inl IndexError)"

text \<open>\<^verbatim>\<open>df[name]\<close>: the column of that name, KeyError when there is none.\<close>

definition getitem :: "dataframe \<Rightarrow> string \<Rightarrow> error + rat list" where
  "getitem df name =
     (case map_of (columns df) name of None \<Rightarrow> Inl KeyError | Some c \<Rightarrow> Inr c)"

text \<open>\<^verbatim>\<open>float(series.mean())\<close>: the sum over the count, NaN for an empty series.\<close>

definition mean :: "rat list \<Rightarrow> pyfloat" where
  "mean c = (if c = [] then NaN else Float (sum_list c / of_nat (length c)))"

text \<open>
  \<^verbatim>\<open>list(set(rows))\<close>: every element once. The order in which Python iterates a set of
  integers is a matter of its hash table; the model keeps the order of the last
  occurrences.
\<close>

definition list_set :: "nat list \<Rightarrow> nat list" where
  "list_set rows = remdups rows"

text \<open>
  The attribute \<^verbatim>\<open>_dataframe\<close> holds an arbitrary Python object; \<^verbatim>\<open>load_dataframe\<close>
  tests it with \<^verbatim>\<open>isinstance\<close>. An attribute that has never been assigned is \<open>None\<close>
  in the record below, and reading it raises AttributeError.
\<close>

datatype pyobj = DataFrame dataframe | NotDataFrame

text \<open>
  Text shown in a widget. The report of the selection-changed handler is the format
  string applied to \<^verbatim>\<open>str(self.selection())\<close> and the two means; it is kept as these
  three arguments, and the status line as the list it prints.
\<close>

datatype shown =
    Plain string
  | SelectedRows "nat list"
  | Summary dataframe pyfloat pyfloat

text \<open>
  The fields of \<^verbatim>\<open>MainWindow\<close> that the handlers read or write, and the state of its
  widgets: the dataframe behind the table view's model (\<open>None\<close> before \<^verbatim>\<open>setModel\<close>),
  the cells the view reports as selected (row and column of each, one entry per cell),
  the text of the results widget and of the status bar, and the messages shown in error
  dialogs. Console output is not recorded.
\<close>

record window =
  file_path :: "string option"
  dataframe :: "pyobj option"
  selected_rows :: "nat list option"
  selection_indexes :: "nat list option"
  table_model :: "dataframe option"
  table_selection :: "(nat \<times> nat) list"
  results_text :: shown
  status_text :: shown
  error_messages :: "string list"

section \<open>The interactive flow: operations\<close>

text \<open>
  A method that assigns to the window returns the exception it raised, if any, and the
  window as it was left. \<^verbatim>\<open>pd.read_csv\<close> is a parameter: the dataframe or the error
  that reading a path gives.
\<close>

definition import_data ::
  "(string \<Rightarrow> error + dataframe) \<Rightarrow> string \<Rightarrow> window \<Rightarrow> error option \<times> window" where
  "import_data read_csv path w =
     (case read_csv path of
        Inl e \<Rightarrow> (Some e, w)
      | Inr df \<Rightarrow> (None, w\<lparr>dataframe := Some (DataFrame df)\<rparr>))"

text \<open>
  \<^verbatim>\<open>setModel\<close> gives the view a new selection model with nothing selected, and the
  handler is connected to that selection model.
\<close>

definition load_dataframe :: "window \<Rightarrow> error option \<times> window" where
  "load_dataframe w =
     (case dataframe w of
        None \<Rightarrow> (Some AttributeError, w)
      | Some (DataFrame df) \<Rightarrow> (None, w\<lparr>table_model := Some df, table_selection := []\<rparr>)
      | Some NotDataFrame \<Rightarrow>
          (None, w\<lparr>error_messages := error_messages w @ [''No data loaded!'']\<rparr>))"

text \<open>
  The dialog's outcome is a parameter: \<open>Some path\<close> when it was accepted with that
  first selected file, \<open>None\<close> otherwise.
\<close>

definition import_dialog ::
  "(string \<Rightarrow> error + dataframe) \<Rightarrow> string option \<Rightarrow> window \<Rightarrow> error option \<times> window" where
  "import_dialog read_csv choice w =
     (case choice of
        None \<Rightarrow> (None, w)
      | Some path \<Rightarrow>
          (case import_data read_csv path (w\<lparr>file_path := Some path\<rparr>) of
             (Some e, w') \<Rightarrow> (Some e, w')
           | (None, w') \<Rightarrow> load_dataframe w'))"

definition selection :: "window \<Rightarrow> error + dataframe" where
  "selection w =
     (case dataframe w of
        None \<Rightarrow> Inl AttributeError
      | Some NotDataFrame \<Rightarrow> Inl AttributeError
      | Some (DataFrame df) \<Rightarrow>
          (case selection_indexes w of
             None \<Rightarrow> Inl AttributeError
           | Some idx \<Rightarrow> iloc df idx))"

definition grp1_avg :: "window \<Rightarrow> error + pyfloat" where
  "grp1_avg w =
     (case selection w of
        Inl e \<Rightarrow> Inl e
      | Inr sel \<Rightarrow> (case getitem sel ''Group_1'' of Inl e \<Rightarrow> Inl e | Inr c \<Rightarrow> Inr (mean c)))"

definition grp2_avg :: "window \<Rightarrow> error + pyfloat" where
  "grp2_avg w =
     (case selection w of
        Inl e \<Rightarrow> Inl e
      | Inr sel \<Rightarrow> (case getitem sel ''Group_2'' of Inl e \<Rightarrow> Inl e | Inr c \<Rightarrow> Inr (mean c)))"

definition display_results :: "shown \<Rightarrow> window \<Rightarrow> window" where
  "display_results t w = w\<lparr>results_text := t\<rparr>"

text \<open>
  The handler stores the rows of the selected cells, prints the selection (the first
  call of \<^verbatim>\<open>selection\<close>), writes the status bar, and displays the report, whose
  arguments are evaluated from left to right.
\<close>

definition selected_rows_changed :: "window \<Rightarrow> error option \<times> window" where
  "selected_rows_changed w =
     (let idx = list_set (map fst (table_selection w));
          w1 = w\<lparr>selection_indexes := Some idx\<rparr>
      in case selection w1 of
           Inl e \<Rightarrow> (Some e, w1)
         | Inr printed \<Rightarrow>
             (let w2 = w1\<lparr>status_text := SelectedRows idx\<rparr>
              in case selection w2 of
                   Inl e \<Rightarrow> (Some e, w2)
                 | Inr sel \<Rightarrow>
                     (case grp1_avg w2 of
                        Inl e \<Rightarrow> (Some e, w2)
                      | Inr a1 \<Rightarrow>
                          (case grp2_avg w2 of
                             Inl e \<Rightarrow> (Some e, w2)
                           | Inr a2 \<Rightarrow> (None, display_results (Summary sel a1 a2) w2)))))"

text \<open>
  \<^verbatim>\<open>QTableView.clearSelection()\<close> does nothing without a selection model or with
  nothing selected; otherwise it empties the selection and the selection model emits
  \<^verbatim>\<open>selectionChanged\<close>, which runs the connected handler before \<^verbatim>\<open>clearSelection\<close>
  returns. An exception that escapes a handler ends the run.
\<close>

definition table_clearSelection :: "window \<Rightarrow> error option \<times> window" where
  "table_clearSelection w =
     (case table_model w of
        None \<Rightarrow> (None, w)
      | Some m \<Rightarrow>
          (if table_selection w = [] then (None, w)
           else selected_rows_changed (w\<lparr>table_selection := []\<rparr>)))"

definition clear_selection :: "window \<Rightarrow> error option \<times> window" where
  "clear_selection w =
     (case table_clearSelection (w\<lparr>selected_rows := Some []\<rparr>) of
        (Some e, w') \<Rightarrow> (Some e, w')
      | (None, w') \<Rightarrow> (None, display_results (Plain []) w'))"

text \<open>
  The constructor: \<^verbatim>\<open>setupUI\<close> creates the widgets (a view without a model, the
  results widget with the text \<^verbatim>\<open>Results\<close>, an empty status bar) and assigns none
  of the other attributes; \<^verbatim>\<open>_file\<close> is assigned; a file given on the command line is
  imported and loaded; \<^verbatim>\<open>_selected_rows\<close> is assigned last.
\<close>

definition setupUI :: window where
  "setupUI =
     \<lparr>file_path = None, dataframe = None, selected_rows = None, selection_indexes = None,
      table_model = None, table_selection = [], results_text = Plain ''Results'',
      status_text = Plain [], error_messages = []\<rparr>"

definition init :: "(string \<Rightarrow> error + dataframe) \<Rightarrow> string option \<Rightarrow> error option \<times> window" where
  "init read_csv f =
     (case f of
        None \<Rightarrow> (None, setupUI\<lparr>file_path := f, selected_rows := Some []\<rparr>)
      | Some path \<Rightarrow>
          (case import_data read_csv path (setupUI\<lparr>file_path := f\<rparr>) of
             (Some e, w) \<Rightarrow> (Some e, w)
           | (None, w) \<Rightarrow>
               (case load_dataframe w of
                  (Some e, w') \<Rightarrow> (Some e, w')
                | (None, w') \<Rightarrow> (None, w'\<lparr>selected_rows := Some []\<rparr>))))"

text \<open>
  The events of a session. The user changes the selection of the table view to a list
  of cells of the view's model, and the selection model runs the handler; the user
  clicks the import button and answers the dialog; the user clicks the clear button. A
  session goes on only after a handler that returned.
\<close>

definition valid_cells :: "dataframe \<Rightarrow> (nat \<times> nat) list \<Rightarrow> bool" where
  "valid_cells df cells =
     list_all (\<lambda>(r, c). r < nrows df \<and> c < length (columns df)) cells"

definition user_selects :: "(nat \<times> nat) list \<Rightarrow> window \<Rightarrow> error option \<times> window" where
  "user_selects cells w = selected_rows_changed (w\<lparr>table_selection := cells\<rparr>)"

inductive reachable :: "(string \<Rightarrow> error + dataframe) \<Rightarrow> window \<Rightarrow> bool"
  for read_csv :: "string \<Rightarrow> error + dataframe" where
  started: "init read_csv f = (None, w) \<Longrightarrow> reachable read_csv w"
| imported: "reachable read_csv w \<Longrightarrow> import_dialog read_csv choice w = (None, w') \<Longrightarrow>
     reachable read_csv w'"
| cleared: "reachable read_csv w \<Longrightarrow> clear_selection w = (None, w') \<Longrightarrow>
     reachable read_csv w'"
| selected: "reachable read_csv w \<Longrightarrow> table_model w = Some df \<Longrightarrow> valid_cells df cells \<Longrightarrow>
     user_selects cells w = (None, w') \<Longrightarrow> reachable read_csv w'"

section \<open>The export flow: the script\<close>

text \<open>
  The script works in one directory. An entry of the directory is a subdirectory, an
  SQLite database, a workbook, or some other regular file. A database is the list of
  its tables in the order in which the master table enumerates them, a table its column
  names and its rows.
\<close>

datatype sql_value = SqlNull | SqlInteger int | SqlText string

record table =
  header :: "string list"
  rows :: "sql_value list list"

type_synonym database = "(string \<times> table) list"

record sheet =
  sheet_name :: string
  grid :: "sql_value list list"

datatype node =
    Directory
  | RegularFile
  | Database database
  | Workbook "sheet list"

type_synonym directory = "(string \<times> node) list"

text \<open>
  \<^verbatim>\<open>glob('fangraph_*days.xlsx')\<close>: the names of the directory that begin with
  \<^verbatim>\<open>fangraph_\<close> and end with \<^verbatim>\<open>days.xlsx\<close>, the star standing for any text, also
  none.
\<close>

definition matches_pattern :: "string \<Rightarrow> bool" where
  "matches_pattern name =
     (length ''fangraph_'' + length ''days.xlsx'' \<le> length name
      \<and> take (length ''fangraph_'') name = ''fangraph_''
      \<and> drop (length name - length ''days.xlsx'') name = ''days.xlsx'')"

definition glob :: "directory \<Rightarrow> string list" where
  "glob fs = filter matches_pattern (map fst fs)"

text \<open>
  \<^verbatim>\<open>shutil.rmtree(f)\<close> deletes a directory tree. On a path that is not a directory it
  raises NotADirectoryError and deletes nothing.
\<close>

definition rmtree :: "string \<Rightarrow> directory \<Rightarrow> error option \<times> directory" where
  "rmtree f fs =
     (case map_of fs f of
        None \<Rightarrow> (Some FileNotFoundError, fs)
      | Some Directory \<Rightarrow> (None, AList.delete f fs)
      | Some other \<Rightarrow> (Some NotADirectoryError, fs))"

fun remove_files :: "string list \<Rightarrow> directory \<Rightarrow> error option \<times> directory" where
  "remove_files [] fs = (None, fs)"
| "remove_files (f # rest) fs =
     (case rmtree f fs of
        (Some e, fs') \<Rightarrow> (Some e, fs')
      | (None, fs') \<Rightarrow> remove_files rest fs')"

text \<open>
  \<^verbatim>\<open>sqlite3.connect\<close> opens the database at a path and creates an empty one where
  there is no file. A file that is not a database is refused when the first query runs,
  which is the enumeration of the tables right after.
\<close>

definition connect :: "string \<Rightarrow> directory \<Rightarrow> error + database \<times> directory" where
  "connect path fs =
     (case map_of fs path of
        None \<Rightarrow> Inr ([], fs @ [(path, Database [])])
      | Some (Database db) \<Rightarrow> Inr (db, fs)
      | Some Directory \<Rightarrow> Inl OperationalError
      | Some other \<Rightarrow> Inl DatabaseError)"

text \<open>
  \<^verbatim>\<open>dft.to_excel(writer, sheet_name, index)\<close> adds a sheet to the workbook of the
  writer: the column names in the first row, then the rows of the frame; with
  \<open>index\<close> each row is preceded by its position, under an empty title. The check that
  the writer makes of a new sheet name against the names it holds is a parameter, which
  gives the exception of a refused name.
\<close>

definition sheet_of :: "string \<Rightarrow> table \<Rightarrow> bool \<Rightarrow> sheet" where
  "sheet_of name dft index =
     \<lparr>sheet_name = name,
      grid = (if index
              then (SqlText [] # map SqlText (header dft))
                   # map (\<lambda>(i, r). SqlInteger (int i) # r) (enumerate 0 (rows dft))
              else map SqlText (header dft) # rows dft)\<rparr>"

definition to_excel ::
  "(string list \<Rightarrow> string \<Rightarrow> error option) \<Rightarrow> sheet list \<Rightarrow> table \<Rightarrow> string \<Rightarrow> bool
     \<Rightarrow> error + sheet list" where
  "to_excel name_check writer dft name index =
     (case name_check (map sheet_name writer) name of
        Some e \<Rightarrow> Inl e
      | None \<Rightarrow> Inr (writer @ [sheet_of name dft index]))"

text \<open>
  The loop over the table names. The SQL engine is a parameter: what the connection
  answers to the text of a query. The query is the concatenation that the script
  builds.
\<close>

fun write_tables ::
  "(database \<Rightarrow> string \<Rightarrow> error + table) \<Rightarrow> (string list \<Rightarrow> string \<Rightarrow> error option)
     \<Rightarrow> database \<Rightarrow> string list \<Rightarrow> sheet list \<Rightarrow> error + sheet list" where
  "write_tables read_sql_query name_check conn [] writer = Inr writer"
| "write_tables read_sql_query name_check conn (table_name # rest) writer =
     (case read_sql_query conn (''SELECT * FROM '' @ table_name) of
        Inl e \<Rightarrow> Inl e
      | Inr dft \<Rightarrow>
          (case to_excel name_check writer dft table_name False of
             Inl e \<Rightarrow> Inl e
           | Inr writer' \<Rightarrow> write_tables read_sql_query name_check conn rest writer'))"

text \<open>
  \<^verbatim>\<open>writer.save()\<close> writes the workbook file, over a file of the same name. A workbook
  to which no sheet was added is written with one empty sheet of the default name.
\<close>

definition save :: "string \<Rightarrow> sheet list \<Rightarrow> directory \<Rightarrow> error option \<times> directory" where
  "save path writer fs =
     (if map_of fs path = Some Directory then (Some IsADirectoryError, fs)
      else (None, AList.update path
              (Workbook (if writer = [] then [\<lparr>sheet_name = ''Sheet1'', grid = []\<rparr>] else writer))
              fs))"

text \<open>
  One round of the loop over \<^verbatim>\<open>num_days\<close>. The list comes from \<^verbatim>\<open>compile_db\<close>;
  an identifier is given as the text that \<^verbatim>\<open>'{}'.format(day)\<close> makes of it.
\<close>

definition xlsx_name :: "string \<Rightarrow> string" where
  "xlsx_name day = ''fangraph_'' @ day @ ''days.xlsx''"

definition db_name :: "string \<Rightarrow> string" where
  "db_name day = ''fangraph_'' @ day @ ''days.db''"

definition export_day ::
  "(database \<Rightarrow> string \<Rightarrow> error + table) \<Rightarrow> (string list \<Rightarrow> string \<Rightarrow> error option)
     \<Rightarrow> string \<Rightarrow> directory \<Rightarrow> error option \<times> directory" where
  "export_day read_sql_query name_check day fs =
     (case connect (db_name day) fs of
        Inl e \<Rightarrow> (Some e, fs)
      | Inr (conn, fs') \<Rightarrow>
          (case write_tables read_sql_query name_check conn (map fst conn) [] of
             Inl e \<Rightarrow> (Some e, fs')
           | Inr writer \<Rightarrow> save (xlsx_name day) writer fs'))"

fun export_days ::
  "(database \<Rightarrow> string \<Rightarrow> error + table) \<Rightarrow> (string list \<Rightarrow> string \<Rightarrow> error option)
     \<Rightarrow> string list \<Rightarrow> directory \<Rightarrow> error option \<times> directory" where
  "export_days read_sql_query name_check [] fs = (None, fs)"
| "export_days read_sql_query name_check (day # rest) fs =
     (case export_day read_sql_query name_check day fs of
        (Some e, fs') \<Rightarrow> (Some e, fs')
      | (None, fs') \<Rightarrow> export_days read_sql_query name_check rest fs')"

text \<open>The script: the removal loop, then the loop over the identifiers.\<close>

definition excel_export ::
  "(database \<Rightarrow> string \<Rightarrow> error + table) \<Rightarrow> (string list \<Rightarrow> string \<Rightarrow> error option)
     \<Rightarrow> string list \<Rightarrow> directory \<Rightarrow> error option \<times> directory" where
  "excel_export read_sql_query name_check num_days fs =
     (case remove_files (glob fs) fs of
        (Some e, fs') \<Rightarrow> (Some e, fs')
      | (None, fs') \<Rightarrow> export_days read_sql_query name_check num_days fs')"



section \<open>Example inputs\<close>

text \<open>
  The dataset of the scenario (\<open>Group_1 = [1, 2, 3]\<close>, \<open>Group_2 = [10, 20, 30]\<close>), a
  second dataset of one row, and a reader that knows the two files.
\<close>

definition groups_csv :: dataframe where
  "groups_csv = \<lparr>nrows = 3, columns = [(''Group_1'', [1, 2, 3]), (''Group_2'', [10, 20, 30])]\<rparr>"

definition short_csv :: dataframe where
  "short_csv = \<lparr>nrows = 1, columns = [(''Group_1'', [4]), (''Group_2'', [40])]\<rparr>"

definition two_files :: "string \<Rightarrow> error + dataframe" where
  "two_files path =
     (if path = ''groups.csv'' then Inr groups_csv
      else if path = ''short.csv'' then Inr short_csv
      else Inl FileNotFoundError)"

text \<open>
  Sessions: the window started with \<^verbatim>\<open>--file groups.csv\<close>; the same after the user
  selected rows 0 and 1 (two cells each); after the user selected row 2.
\<close>

definition started_window :: window where
  "started_window = snd (init two_files (Some ''groups.csv''))"

definition rows01_window :: window where
  "rows01_window = snd (user_selects [(0, 0), (0, 1), (1, 0), (1, 1)] started_window)"

definition row2_window :: window where
  "row2_window = snd (user_selects [(2, 0), (2, 1)] started_window)"

text \<open>
  The agreement between the window and its table view that every session keeps: the
  model of the view is the loaded dataset and the selected cells are cells of it;
  before a dataset is loaded the view has no model and nothing is selected.
\<close>

definition view_inv :: "window \<Rightarrow> bool" where
  "view_inv w =
     (case table_model w of
        None \<Rightarrow> dataframe w = None \<and> table_selection w = []
      | Some df \<Rightarrow> dataframe w = Some (DataFrame df) \<and> valid_cells df (table_selection w))"

text \<open>
  More sessions: the window started without a file; the import of \<^verbatim>\<open>short.csv\<close>
  after row 2 was selected; the import of \<^verbatim>\<open>groups.csv\<close> once more after rows 0 and
  1 were selected.
\<close>

definition fresh_window :: window where
  "fresh_window = snd (init two_files None)"

definition stale_window :: window where
  "stale_window = snd (import_dialog two_files (Some ''short.csv'') row2_window)"

definition reimported_window :: window where
  "reimported_window = snd (import_dialog two_files (Some ''groups.csv'') rows01_window)"



definition batting :: table where
  "batting = \<lparr>header = [''player'', ''hr''],
              rows = [[SqlText ''Ruth'', SqlInteger 60], [SqlText ''Maris'', SqlInteger 61]]\<rparr>"

definition pitching :: table where
  "pitching = \<lparr>header = [''player'', ''wins''], rows = [[SqlText ''Young'', SqlInteger 511]]\<rparr>"

definition fresh_dir :: directory where
  "fresh_dir = [(''fangraph_7days.db'', Database [(''batting'', batting), (''pitching'', pitching)])]"

definition exported_dir :: directory where
  "exported_dir =
     [(''fangraph_7days.db'', Database [(''batting'', batting), (''pitching'', pitching)]),
      (''fangraph_7days.xlsx'',
         Workbook
           [\<lparr>sheet_name = ''batting'',
             grid = [[SqlText ''player'', SqlText ''hr''],
                     [SqlText ''Ruth'', SqlInteger 60], [SqlText ''Maris'', SqlInteger 61]]\<rparr>,
            \<lparr>sheet_name = ''pitching'',
             grid = [[SqlText ''player'', SqlText ''wins''], [SqlText ''Young'', SqlInteger 511]]\<rparr>])]"


definition lookup_engine :: "database \<Rightarrow> string \<Rightarrow> error + table" where
  "lookup_engine db query =
     (case map_of (map (\<lambda>(n, t). (''SELECT * FROM '' @ n, t)) db) query of
        None \<Rightarrow> Inl OperationalError
      | Some t \<Rightarrow> Inr t)"

definition excel_names :: "string list \<Rightarrow> string \<Rightarrow> error option" where
  "excel_names seen name =
     (if 31 < length name then Some InvalidWorksheetName
      else if name \<in> set seen then Some DuplicateWorksheetName
      else None)"

section \<open>The example sessions, evaluated\<close>

lemma started_window_eq:
  "started_window =
     \<lparr>file_path = Some ''groups.csv'', dataframe = Some (DataFrame groups_csv),
      selected_rows = Some [], selection_indexes = None,
      table_model = Some groups_csv, table_selection = [], results_text = Plain ''Results'',
      status_text = Plain [], error_messages = []\<rparr>"
  by (simp add: started_window_def init_def import_data_def two_files_def load_dataframe_def
      setupUI_def)

lemma rows01_window_eq:
  "rows01_window =
     \<lparr>file_path = Some ''groups.csv'', dataframe = Some (DataFrame groups_csv),
      selected_rows = Some [], selection_indexes = Some [0, 1],
      table_model = Some groups_csv, table_selection = [(0, 0), (0, 1), (1, 0), (1, 1)],
      results_text =
        Summary \<lparr>nrows = 2, columns = [(''Group_1'', [1, 2]), (''Group_2'', [10, 20])]\<rparr>
          (Float (3 / 2)) (Float 15),
      status_text = SelectedRows [0, 1], error_messages = []\<rparr>"
  by (simp add: rows01_window_def user_selects_def selected_rows_changed_def started_window_eq
      list_set_def selection_def iloc_def groups_csv_def grp1_avg_def grp2_avg_def getitem_def
      mean_def display_results_def Let_def)

lemma row2_window_eq:
  "row2_window =
     \<lparr>file_path = Some ''groups.csv'', dataframe = Some (DataFrame groups_csv),
      selected_rows = Some [], selection_indexes = Some [2],
      table_model = Some groups_csv, table_selection = [(2, 0), (2, 1)],
      results_text =
        Summary \<lparr>nrows = 1, columns = [(''Group_1'', [3]), (''Group_2'', [30])]\<rparr>
          (Float 3) (Float 30),
      status_text = SelectedRows [2], error_messages = []\<rparr>"
  by (simp add: row2_window_def user_selects_def selected_rows_changed_def started_window_eq
      list_set_def selection_def iloc_def groups_csv_def grp1_avg_def grp2_avg_def getitem_def
      mean_def display_results_def Let_def)

section \<open>Means over the selection\<close>





section \<open>What the handlers leave alone\<close>

lemma selected_rows_changed_frame:
  "dataframe (snd (selected_rows_changed w)) = dataframe w"
  "table_model (snd (selected_rows_changed w)) = table_model w"
  "table_selection (snd (selected_rows_changed w)) = table_selection w"
  "selected_rows (snd (selected_rows_changed w)) = selected_rows w"
  "error_messages (snd (selected_rows_changed w)) = error_messages w"
  "file_path (snd (selected_rows_changed w)) = file_path w"
  by (simp_all add: selected_rows_changed_def display_results_def Let_def split: sum.splits)

lemma selected_rows_changed_stores:
  "selection_indexes (snd (selected_rows_changed w)) = Some (list_set (map fst (table_selection w)))"
  by (simp add: selected_rows_changed_def display_results_def Let_def split: sum.splits)

lemma selected_rows_changed_dedup:
  "\<exists>idx. selection_indexes (snd (selected_rows_changed w)) = Some idx
     \<and> distinct idx \<and> set idx = fst ` set (table_selection w)"
  by (simp add: selected_rows_changed_stores list_set_def)

lemma valid_cells_rows:
  "valid_cells df cells \<Longrightarrow> list_all (\<lambda>i. i < nrows df) (list_set (map fst cells))"
  by (auto simp: valid_cells_def list_set_def list_all_iff)

lemma selected_rows_changed_no_IndexError:
  assumes "dataframe w = Some (DataFrame df)" and "valid_cells df (table_selection w)"
  shows "fst (selected_rows_changed w) \<noteq> Some IndexError"
  using assms valid_cells_rows [OF assms(2)]
  by (auto simp: selected_rows_changed_def display_results_def Let_def selection_def iloc_def
      grp1_avg_def grp2_avg_def getitem_def split: sum.splits option.splits)

lemma table_clearSelection_frame:
  "dataframe (snd (table_clearSelection w)) = dataframe w"
  "table_model (snd (table_clearSelection w)) = table_model w"
  "selected_rows (snd (table_clearSelection w)) = selected_rows w"
  "error_messages (snd (table_clearSelection w)) = error_messages w"
  by (simp_all add: table_clearSelection_def selected_rows_changed_frame split: option.splits)

lemma table_clearSelection_view:
  "table_selection (snd (table_clearSelection w)) = (if table_model w = None then table_selection w else [])"
  by (simp add: table_clearSelection_def selected_rows_changed_frame split: option.splits)

lemma clear_selection_snd:
  "snd (clear_selection w) =
     (case table_clearSelection (w\<lparr>selected_rows := Some []\<rparr>) of
        (Some e, w') \<Rightarrow> w' | (None, w') \<Rightarrow> w'\<lparr>results_text := Plain []\<rparr>)"
  by (simp add: clear_selection_def display_results_def split: prod.splits option.splits)

lemma clear_selection_frame:
  "dataframe (snd (clear_selection w)) = dataframe w"
  "table_model (snd (clear_selection w)) = table_model w"
  "selected_rows (snd (clear_selection w)) = Some []"
  "error_messages (snd (clear_selection w)) = error_messages w"
  "table_selection (snd (clear_selection w)) = (if table_model w = None then table_selection w else [])"
  using table_clearSelection_frame [of "w\<lparr>selected_rows := Some []\<rparr>"]
    table_clearSelection_view [of "w\<lparr>selected_rows := Some []\<rparr>"]
  by (auto simp: clear_selection_snd split: prod.splits option.splits)

section \<open>The view shows the loaded dataset\<close>

lemma init_view_inv: "init read_csv f = (None, w) \<Longrightarrow> view_inv w \<and> error_messages w = []"
  by (auto simp: init_def view_inv_def setupUI_def import_data_def load_dataframe_def valid_cells_def
      split: option.splits sum.splits prod.splits pyobj.splits)

lemma import_dialog_view_inv:
  "import_dialog read_csv choice w = (None, w') \<Longrightarrow> view_inv w \<and> error_messages w = [] \<Longrightarrow>
   view_inv w' \<and> error_messages w' = []"
  by (auto simp: import_dialog_def view_inv_def import_data_def load_dataframe_def valid_cells_def
      split: option.splits sum.splits prod.splits pyobj.splits)

lemma user_selects_view_inv:
  "user_selects cells w = (e, w') \<Longrightarrow> table_model w = Some df \<Longrightarrow> valid_cells df cells \<Longrightarrow>
   view_inv w \<and> error_messages w = [] \<Longrightarrow> view_inv w' \<and> error_messages w' = []"
  using selected_rows_changed_frame [of "w\<lparr>table_selection := cells\<rparr>"]
  by (auto simp: user_selects_def view_inv_def)

lemma clear_selection_view_inv:
  assumes "clear_selection w = (e, w')" and "view_inv w \<and> error_messages w = []"
  shows "view_inv w' \<and> error_messages w' = []"
proof -
  from assms(1) have "w' = snd (clear_selection w)"
    by simp
  with assms(2) show ?thesis
    by (auto simp: view_inv_def valid_cells_def clear_selection_frame split: option.splits)
qed

lemma reachable_view_inv: "reachable read_csv w \<Longrightarrow> view_inv w \<and> error_messages w = []"
proof (induction rule: reachable.induct)
  case (started f w)
  then show ?case by (rule init_view_inv)
next
  case (imported w choice w')
  from imported.hyps(2) imported.IH show ?case by (rule import_dialog_view_inv)
next
  case (cleared w w')
  from cleared.hyps(2) cleared.IH show ?case by (rule clear_selection_view_inv)
next
  case (selected w df cells w')
  from selected.hyps(4,2,3) selected.IH show ?case by (rule user_selects_view_inv)
qed


lemma import_dialog_accepted:
  assumes "import_dialog read_csv (Some path) w = (None, w')"
  shows "\<exists>df. read_csv path = Inr df
           \<and> w' = w\<lparr>file_path := Some path, dataframe := Some (DataFrame df),
                     table_model := Some df, table_selection := []\<rparr>"
  using assms
  by (auto simp: import_dialog_def import_data_def load_dataframe_def split: sum.splits)

section \<open>More example sessions, evaluated\<close>

lemma stale_window_eq:
  "stale_window =
     \<lparr>file_path = Some ''short.csv'', dataframe = Some (DataFrame short_csv),
      selected_rows = Some [], selection_indexes = Some [2],
      table_model = Some short_csv, table_selection = [],
      results_text =
        Summary \<lparr>nrows = 1, columns = [(''Group_1'', [3]), (''Group_2'', [30])]\<rparr>
          (Float 3) (Float 30),
      status_text = SelectedRows [2], error_messages = []\<rparr>"
  by (simp add: stale_window_def row2_window_eq import_dialog_def import_data_def two_files_def
      load_dataframe_def)

lemma reimported_window_eq:
  "reimported_window =
     \<lparr>file_path = Some ''groups.csv'', dataframe = Some (DataFrame groups_csv),
      selected_rows = Some [], selection_indexes = Some [0, 1],
      table_model = Some groups_csv, table_selection = [],
      results_text =
        Summary \<lparr>nrows = 2, columns = [(''Group_1'', [1, 2]), (''Group_2'', [10, 20])]\<rparr>
          (Float (3 / 2)) (Float 15),
      status_text = SelectedRows [0, 1], error_messages = []\<rparr>"
  by (simp add: reimported_window_def rows01_window_eq import_dialog_def import_data_def
      two_files_def load_dataframe_def)

lemma fresh_window_eq:
  "fresh_window =
     \<lparr>file_path = None, dataframe = None, selected_rows = Some [], selection_indexes = None,
      table_model = None, table_selection = [], results_text = Plain ''Results'',
      status_text = Plain [], error_messages = []\<rparr>"
  by (simp add: fresh_window_def init_def setupUI_def)

lemma reachable_started_window: "reachable two_files started_window"
proof (rule reachable.started)
  show "init two_files (Some ''groups.csv'') = (None, started_window)"
    by (simp add: started_window_eq init_def import_data_def two_files_def load_dataframe_def
        setupUI_def)
qed

lemma reachable_row2_window: "reachable two_files row2_window"
proof (rule reachable.selected [OF reachable_started_window])
  show "table_model started_window = Some groups_csv"
    by (simp add: started_window_eq)
  show "valid_cells groups_csv [(2, 0), (2, 1)]"
    by (simp add: valid_cells_def groups_csv_def)
  show "user_selects [(2, 0), (2, 1)] started_window = (None, row2_window)"
    by (simp add: row2_window_eq user_selects_def selected_rows_changed_def started_window_eq
      list_set_def selection_def iloc_def groups_csv_def grp1_avg_def grp2_avg_def getitem_def
      mean_def display_results_def Let_def)
qed

section \<open>Import and the stored selection\<close>

text \<open>
  C4, as stated, fails. After row 2 of the three-row dataset was selected, the import of
  the one-row dataset leaves \<open>selection_indexes\<close> at \<open>[2]\<close>: the import does not empty
  the stored selection, and the stored selection is not a set of valid rows of the new
  dataset (\<open>selection\<close> on that window raises IndexError).
\<close>

theorem import_keeps_selection_counterexample:
  "import_dialog two_files (Some ''short.csv'') row2_window = (None, stale_window)
   \<and> dataframe stale_window = Some (DataFrame short_csv)
   \<and> nrows short_csv = 1
   \<and> selection_indexes stale_window = Some [2]
   \<and> selection stale_window = Inl IndexError"
  by (simp add: stale_window_eq row2_window_eq import_dialog_def import_data_def two_files_def
      load_dataframe_def selection_def iloc_def short_csv_def)

text \<open>
  C4, amended. In every state of a session the model of the table view is the loaded
  dataset and the selected cells are cells of it. An accepted import leaves
  \<open>selection_indexes\<close> as it was and gives the view an empty selection. The
  selection-changed handler overwrites \<open>selection_indexes\<close> with the rows of the
  view's selection before it computes, so the indices it computes with are valid rows
  of the loaded dataset: no selection-changed event and no clear action raises
  IndexError.
\<close>

theorem computation_uses_view_selection:
  assumes "reachable read_csv w"
  shows "view_inv w
    \<and> (\<forall>path w'. import_dialog read_csv (Some path) w = (None, w') \<longrightarrow>
          selection_indexes w' = selection_indexes w \<and> table_selection w' = [])
    \<and> (\<forall>df cells. table_model w = Some df \<longrightarrow> valid_cells df cells \<longrightarrow>
          dataframe w = Some (DataFrame df)
          \<and> fst (user_selects cells w) \<noteq> Some IndexError
          \<and> selection_indexes (snd (user_selects cells w)) = Some (list_set (map fst cells))
          \<and> list_all (\<lambda>i. i < nrows df) (list_set (map fst cells)))
    \<and> fst (clear_selection w) \<noteq> Some IndexError"
proof -
  from assms have inv: "view_inv w"
    by (simp add: reachable_view_inv)
  have imp: "\<forall>path w'. import_dialog read_csv (Some path) w = (None, w') \<longrightarrow>
          selection_indexes w' = selection_indexes w \<and> table_selection w' = []"
    by (auto dest: import_dialog_accepted)
  have sel: "\<forall>df cells. table_model w = Some df \<longrightarrow> valid_cells df cells \<longrightarrow>
          dataframe w = Some (DataFrame df)
          \<and> fst (user_selects cells w) \<noteq> Some IndexError
          \<and> selection_indexes (snd (user_selects cells w)) = Some (list_set (map fst cells))
          \<and> list_all (\<lambda>i. i < nrows df) (list_set (map fst cells))"
  proof (intro allI impI)
    fix df cells
    assume m: "table_model w = Some df" and v: "valid_cells df cells"
    from inv m have d: "dataframe w = Some (DataFrame df)"
      by (simp add: view_inv_def)
    have "fst (selected_rows_changed (w\<lparr>table_selection := cells\<rparr>)) \<noteq> Some IndexError"
      by (rule selected_rows_changed_no_IndexError [where df = df]) (simp_all add: d v)
    then show "dataframe w = Some (DataFrame df)
          \<and> fst (user_selects cells w) \<noteq> Some IndexError
          \<and> selection_indexes (snd (user_selects cells w)) = Some (list_set (map fst cells))
          \<and> list_all (\<lambda>i. i < nrows df) (list_set (map fst cells))"
      using d valid_cells_rows [OF v]
      by (simp add: user_selects_def selected_rows_changed_stores)
  qed
  have clr: "fst (clear_selection w) \<noteq> Some IndexError"
  proof (cases "table_model w")
    case None
    then show ?thesis
      by (simp add: clear_selection_def table_clearSelection_def)
  next
    case (Some df)
    with inv have d: "dataframe w = Some (DataFrame df)"
      by (simp add: view_inv_def)
    have "fst (selected_rows_changed (w\<lparr>selected_rows := Some [], table_selection := []\<rparr>))
            \<noteq> Some IndexError"
      by (rule selected_rows_changed_no_IndexError [where df = df])
         (simp_all add: d valid_cells_def)
    with Some show ?thesis
      by (auto simp: clear_selection_def table_clearSelection_def split: prod.splits option.splits)
  qed
  from inv imp sel clr show ?thesis
    by blast
qed

text \<open>
  The amended C4 at the session in which row 2 is selected: the import of the shorter
  file keeps the stored selection, and selecting row 1 computes with \<open>[1]\<close>.
\<close>

theorem computation_uses_view_selection_witness:
  "reachable two_files row2_window
   \<and> selection_indexes stale_window = selection_indexes row2_window
   \<and> table_selection stale_window = []
   \<and> fst (user_selects [(1, 0), (1, 1)] row2_window) \<noteq> Some IndexError
   \<and> selection_indexes (snd (user_selects [(1, 0), (1, 1)] row2_window)) = Some [1]"
proof -
  have i: "import_dialog two_files (Some ''short.csv'') row2_window = (None, stale_window)"
    by (simp add: stale_window_eq row2_window_eq import_dialog_def import_data_def two_files_def
      load_dataframe_def)
  have m: "table_model row2_window = Some groups_csv"
    by (simp add: row2_window_eq)
  have v: "valid_cells groups_csv [(1, 0), (1, 1)]"
    by (simp add: valid_cells_def groups_csv_def)
  from computation_uses_view_selection [OF reachable_row2_window] i m v
  have "selection_indexes stale_window = selection_indexes row2_window \<and> table_selection stale_window = []"
    and "fst (user_selects [(1, 0), (1, 1)] row2_window) \<noteq> Some IndexError"
    and "selection_indexes (snd (user_selects [(1, 0), (1, 1)] row2_window))
           = Some (list_set (map fst [(1, 0), (1::nat, 1::nat)]))"
    by blast+
  with reachable_row2_window show ?thesis
    by (simp add: list_set_def)
qed


section \<open>Requests without a dataset\<close>

text \<open>
  C5, as stated, fails. In the window started without a file no dataset is loaded;
  \<open>grp1_avg\<close>, \<open>grp2_avg\<close> and the selection-changed handler raise AttributeError
  there, and no notice is shown.
\<close>

theorem no_data_notice_counterexample:
  "dataframe fresh_window = None
   \<and> grp1_avg fresh_window = Inl AttributeError
   \<and> grp2_avg fresh_window = Inl AttributeError
   \<and> fst (selected_rows_changed fresh_window) = Some AttributeError
   \<and> error_messages (snd (selected_rows_changed fresh_window)) = []"
  by (simp add: fresh_window_eq grp1_avg_def grp2_avg_def selection_def selected_rows_changed_def
      Let_def)

text \<open>
  C5, amended. With no dataset loaded (the attribute \<open>_dataframe\<close> never assigned) the
  summary operations are not guarded: \<open>selection\<close>, \<open>grp1_avg\<close> and \<open>grp2_avg\<close> raise
  AttributeError, and the selection-changed handler raises it after it stored the rows
  of the view's selection; none of them shows a notice. The one guard is in
  \<open>load_dataframe\<close>, which shows \<^verbatim>\<open>No data loaded!\<close> when \<open>_dataframe\<close> holds an object
  that is not a dataframe.
\<close>

theorem no_data_summary_unguarded:
  assumes "dataframe w = None"
  shows "selection w = Inl AttributeError
    \<and> grp1_avg w = Inl AttributeError
    \<and> grp2_avg w = Inl AttributeError
    \<and> selected_rows_changed w
        = (Some AttributeError, w\<lparr>selection_indexes := Some (list_set (map fst (table_selection w)))\<rparr>)
    \<and> load_dataframe (w\<lparr>dataframe := Some NotDataFrame\<rparr>)
        = (None, w\<lparr>dataframe := Some NotDataFrame,
                    error_messages := error_messages w @ [''No data loaded!'']\<rparr>)"
  using assms
  by (simp add: grp1_avg_def grp2_avg_def selection_def selected_rows_changed_def Let_def
      load_dataframe_def)

text \<open>The amended C5 at the window started without a file.\<close>

theorem no_data_summary_unguarded_witness:
  "dataframe fresh_window = None
   \<and> selection fresh_window = Inl AttributeError
   \<and> selected_rows_changed fresh_window = (Some AttributeError, fresh_window\<lparr>selection_indexes := Some []\<rparr>)
   \<and> error_messages (snd (load_dataframe (fresh_window\<lparr>dataframe := Some NotDataFrame\<rparr>)))
        = [''No data loaded!'']"
proof -
  have d: "dataframe fresh_window = None"
    by (simp add: fresh_window_eq)
  from no_data_summary_unguarded [OF d] d show ?thesis
    by (simp add: fresh_window_eq list_set_def)
qed

section \<open>A failed import\<close>

text \<open>
  C6, as stated, fails. The import of a path that cannot be read, from the dialog of a
  window with a dataset, ends with the exception of the reader leaving the handler: no
  error dialog is shown, and the results widget and the status bar are as before.
\<close>

theorem import_failure_counterexample:
  "two_files ''missing.csv'' = Inl FileNotFoundError
   \<and> import_dialog two_files (Some ''missing.csv'') started_window
       = (Some FileNotFoundError, started_window\<lparr>file_path := Some ''missing.csv''\<rparr>)
   \<and> error_messages (snd (import_dialog two_files (Some ''missing.csv'') started_window)) = []
   \<and> results_text (snd (import_dialog two_files (Some ''missing.csv'') started_window))
       = results_text started_window
   \<and> status_text (snd (import_dialog two_files (Some ''missing.csv'') started_window))
       = status_text started_window"
  by (simp add: two_files_def import_dialog_def import_data_def started_window_eq)

text \<open>
  C6, amended. When reading the path fails, \<open>import_data\<close> raises the error of the
  reader and leaves the window as it was, so a dataset loaded before is retained.
  \<open>import_dialog\<close> has stored the chosen path in \<open>_file\<close> by then; it catches nothing
  and shows no notice: the exception leaves the handler, and nothing else changes. In
  the constructor the exception leaves before any dataset is set.
\<close>

theorem import_failure_propagates:
  assumes "read_csv path = Inl e"
  shows "import_data read_csv path w = (Some e, w)
    \<and> import_dialog read_csv (Some path) w = (Some e, w\<lparr>file_path := Some path\<rparr>)
    \<and> init read_csv (Some path) = (Some e, setupUI\<lparr>file_path := Some path\<rparr>)"
  using assms by (simp add: import_data_def import_dialog_def init_def)

text \<open>The amended C6 at the import of a missing file into the started window.\<close>

theorem import_failure_propagates_witness:
  "two_files ''missing.csv'' = Inl FileNotFoundError
   \<and> import_data two_files ''missing.csv'' started_window = (Some FileNotFoundError, started_window)
   \<and> dataframe (snd (import_dialog two_files (Some ''missing.csv'') started_window))
       = Some (DataFrame groups_csv)"
proof -
  have f: "two_files ''missing.csv'' = Inl FileNotFoundError"
    by (simp add: two_files_def)
  from import_failure_propagates [of two_files "''missing.csv''" FileNotFoundError started_window, OF f] f
  show ?thesis
    by (simp add: started_window_eq)
qed

section \<open>The clear action\<close>

text \<open>
  What the clear action does in every state: when it returns, \<open>selected_rows\<close> is
  empty and the results widget is empty, and a view with a model has nothing selected.
  When the view had a selection, the handler that \<^verbatim>\<open>clearSelection\<close> runs has set
  \<open>selection_indexes\<close> to the empty list.
\<close>

lemma clear_selection_returns:
  assumes "clear_selection w = (None, w')"
  shows "selected_rows w' = Some [] \<and> results_text w' = Plain []
    \<and> table_selection w' = (if table_model w = None then table_selection w else [])"
proof -
  from assms have w': "w' = snd (clear_selection w)"
    by simp
  from assms have "results_text w' = Plain []"
    by (auto simp: clear_selection_def display_results_def split: prod.splits option.splits)
  then show ?thesis
    by (simp add: w' clear_selection_frame)
qed

lemma clear_selection_after_selection:
  assumes "table_model w = Some df" and "table_selection w \<noteq> []"
  shows "selection_indexes (snd (clear_selection w)) = Some []"
proof -
  let ?v = "w\<lparr>selected_rows := Some [], table_selection := []\<rparr>"
  have "selection_indexes (snd (selected_rows_changed ?v)) = Some []"
    by (simp add: selected_rows_changed_stores list_set_def)
  with assms show ?thesis
    by (auto simp: clear_selection_def table_clearSelection_def display_results_def
        split: prod.splits option.splits)
qed

text \<open>
  C7 at a session that the claim does not survive: rows 0 and 1 are selected, the file
  is imported once more, the clear button is clicked. The clear action returns with an
  empty results widget and an empty \<open>selected_rows\<close>, and \<open>selection_indexes\<close>, the
  list that \<open>selection\<close> reads, still holds rows 0 and 1.
\<close>

theorem clear_selection_keeps_stale_indexes:
  "import_dialog two_files (Some ''groups.csv'') rows01_window = (None, reimported_window)
   \<and> clear_selection reimported_window
       = (None, reimported_window\<lparr>results_text := Plain []\<rparr>)
   \<and> selection_indexes (snd (clear_selection reimported_window)) = Some [0, 1]
   \<and> selected_rows (snd (clear_selection reimported_window)) = Some []
   \<and> results_text (snd (clear_selection reimported_window)) = Plain []
   \<and> selection (snd (clear_selection reimported_window))
       = Inr \<lparr>nrows = 2, columns = [(''Group_1'', [1, 2]), (''Group_2'', [10, 20])]\<rparr>"
  by (simp add: reimported_window_eq rows01_window_eq import_dialog_def import_data_def
      two_files_def load_dataframe_def clear_selection_def table_clearSelection_def
      display_results_def selection_def iloc_def groups_csv_def)

section \<open>The stored selection\<close>

text \<open>
  C8 at the start of a session, with a file and without: the constructor assigns the
  empty list to \<open>selected_rows\<close> and nothing to \<open>selection_indexes\<close>, so with the file
  loaded \<open>selection\<close> raises AttributeError instead of giving an empty selection, and
  a clear action leaves \<open>selection_indexes\<close> unassigned. (After a selection-changed
  event the stored list is free of duplicates and holds the rows of the selected cells:
  \<open>selected_rows_changed_dedup\<close>.)
\<close>

theorem selection_indexes_unset_initially:
  "init two_files (Some ''groups.csv'') = (None, started_window)
   \<and> selection_indexes started_window = None
   \<and> selected_rows started_window = Some []
   \<and> selection started_window = Inl AttributeError
   \<and> selection_indexes (snd (clear_selection started_window)) = None
   \<and> init two_files None = (None, fresh_window)
   \<and> selection_indexes fresh_window = None
   \<and> selected_rows fresh_window = Some []
   \<and> selection_indexes (snd (clear_selection fresh_window)) = None"
  by (simp add: started_window_eq fresh_window_eq init_def import_data_def two_files_def
      load_dataframe_def setupUI_def selection_def clear_selection_def table_clearSelection_def
      display_results_def)

section \<open>The dataset is replaced, never modified\<close>

lemma import_dialog_dataframe:
  "dataframe (snd (import_dialog read_csv choice w))
     = (case choice of
          None \<Rightarrow> dataframe w
        | Some path \<Rightarrow> (case read_csv path of Inl e \<Rightarrow> dataframe w | Inr df \<Rightarrow> Some (DataFrame df)))"
  by (simp add: import_dialog_def import_data_def load_dataframe_def
      split: option.splits sum.splits)

lemma load_dataframe_frame: "dataframe (snd (load_dataframe w)) = dataframe w"
  by (simp add: load_dataframe_def split: option.splits pyobj.splits)

text \<open>
  C9. The selection-changed handler (run by itself or by a change of the selection),
  the clear action, displaying results and loading the view leave the dataset as it is;
  the mean computations return a value and assign nothing. The import dialog leaves it
  as it is when the dialog is dismissed or the read fails, and replaces it by the
  dataframe read otherwise.
\<close>

theorem dataset_replaced_only_by_import:
  "dataframe (snd (selected_rows_changed w)) = dataframe w
   \<and> dataframe (snd (user_selects cells w)) = dataframe w
   \<and> dataframe (snd (clear_selection w)) = dataframe w
   \<and> dataframe (display_results t w) = dataframe w
   \<and> dataframe (snd (load_dataframe w)) = dataframe w
   \<and> dataframe (snd (import_dialog read_csv choice w))
       = (case choice of
            None \<Rightarrow> dataframe w
          | Some path \<Rightarrow>
              (case read_csv path of Inl e \<Rightarrow> dataframe w | Inr df \<Rightarrow> Some (DataFrame df)))"
  by (simp add: selected_rows_changed_frame clear_selection_frame user_selects_def
      display_results_def load_dataframe_frame import_dialog_dataframe)

section \<open>The empty selection\<close>



section \<open>The export flow: a first run and a second\<close>

lemma first_run: "excel_export lookup_engine excel_names [''7''] fresh_dir = (None, exported_dir)"
  by (simp add: excel_export_def glob_def fresh_dir_def matches_pattern_def export_day_def
      connect_def db_name_def xlsx_name_def lookup_engine_def to_excel_def excel_names_def
      sheet_of_def save_def exported_dir_def batting_def pitching_def)

section \<open>The export flow: file names\<close>






section \<open>The export flow: the loops\<close>






lemma glob_member: "n \<in> set (glob fs) \<longleftrightarrow> matches_pattern n \<and> map_of fs n \<noteq> None"
  by (auto simp: glob_def map_of_eq_None_iff)




section \<open>The export flow: files of a previous run\<close>

text \<open>
  A regular file whose name the pattern matches stops the run in the removal loop, and
  stays.
\<close>

lemma remove_files_regular_file:
  assumes "distinct names" and "f \<in> set names" and "map_of fs f = Some entry"
    and "entry \<noteq> Directory" and "list_all (\<lambda>n. map_of fs n \<noteq> None) names"
  shows "fst (remove_files names fs) = Some NotADirectoryError
    \<and> map_of (snd (remove_files names fs)) f = Some entry"
  using assms
proof (induction names arbitrary: fs)
  case Nil
  then show ?case by simp
next
  case (Cons n rest)
  from Cons.prems(5) obtain e where e: "map_of fs n = Some e"
    by auto
  show ?case
  proof (cases "e = Directory")
    case True
    with e Cons.prems(3,4) have nf: "n \<noteq> f"
      by auto
    with Cons.prems(2) have 2: "f \<in> set rest"
      by simp
    from Cons.prems(1) have 1: "distinct rest" and nr: "n \<notin> set rest"
      by simp_all
    from nf Cons.prems(3) have 3: "map_of (AList.delete n fs) f = Some entry"
      by (simp add: delete_conv')
    from nr Cons.prems(5) have 5: "list_all (\<lambda>m. map_of (AList.delete n fs) m \<noteq> None) rest"
      by (auto simp: list_all_iff delete_conv')
    from Cons.IH [OF 1 2 3 Cons.prems(4) 5] e True show ?thesis
      by (simp add: rmtree_def)
  next
    case False
    with e have "rmtree n fs = (Some NotADirectoryError, fs)"
      by (cases e) (simp_all add: rmtree_def)
    with Cons.prems(3) show ?thesis
      by simp
  qed
qed

lemma excel_export_regular_file:
  assumes "distinct (map fst fs)" and "matches_pattern f" and "map_of fs f = Some entry"
    and "entry \<noteq> Directory"
  shows "fst (excel_export read_sql_query name_check num_days fs) = Some NotADirectoryError
    \<and> map_of (snd (excel_export read_sql_query name_check num_days fs)) f = Some entry"
proof -
  from assms(1) have d: "distinct (glob fs)"
    by (simp add: glob_def distinct_map_filter)
  from assms(2,3) have m: "f \<in> set (glob fs)"
    by (simp add: glob_member)
  have a: "list_all (\<lambda>n. map_of fs n \<noteq> None) (glob fs)"
    by (simp add: list_all_iff glob_member)
  from remove_files_regular_file [OF d m assms(3,4) a] show ?thesis
    by (cases "remove_files (glob fs) fs") (auto simp: excel_export_def)
qed

text \<open>
  C3 at the directory that a first run leaves. The first run writes the workbook of the
  identifier 7. In the second run the pattern matches that workbook, \<^verbatim>\<open>rmtree\<close> raises
  NotADirectoryError on it, and the run ends there with the directory as it was: the
  file of the previous run is not removed, whether its identifier is still in the list
  or not.
\<close>

theorem rerun_raises_on_previous_output:
  "excel_export lookup_engine excel_names [''7''] fresh_dir = (None, exported_dir)
   \<and> glob exported_dir = [''fangraph_7days.xlsx'']
   \<and> excel_export lookup_engine excel_names [''7''] exported_dir = (Some NotADirectoryError, exported_dir)
   \<and> excel_export lookup_engine excel_names [] exported_dir = (Some NotADirectoryError, exported_dir)"
  by (simp add: first_run)
     (simp add: excel_export_def glob_def matches_pattern_def exported_dir_def rmtree_def)

end
